theory Spec2Isabelle
  imports Complex_Main "HOL-Library.Word"
begin

unbundle bit_operations_syntax

section \<open>Data model of \<^verbatim>\<open>wayland_presentation.cpp\<close>\<close>

type_synonym u32 = "32 word"
type_synonym u64 = "64 word"

text \<open>
  \<^verbatim>\<open>uintptr_t\<close>: the handles cross the binding as unsigned integers and are stored as
  \<^verbatim>\<open>void*\<close> by \<^verbatim>\<open>reinterpret_cast\<close>; a stored pointer is null exactly when the integer
  is zero. 64 bits are taken for the pointer width.
\<close>

type_synonym uintptr_t = "64 word"

text \<open>The struct \<^verbatim>\<open>PresentationFeedback\<close>, field by field.\<close>

record PresentationFeedback =
  timestamp_ns :: u64
  sequence :: u64
  refresh_ns :: u32
  flags :: u32
  presented :: bool

text \<open>
  What a callback can read of the monitor while it runs: the six public
  \<^verbatim>\<open>const\<close> accessors.
\<close>

record Snapshot =
  seen_presented_count :: u64
  seen_discarded_count :: u64
  seen_vsync_count :: u64
  seen_zero_copy_count :: u64
  seen_last_sequence :: u64
  seen_last_timestamp_ns :: u64

text \<open>
  \<^verbatim>\<open>FeedbackCallback = std::function<void(const PresentationFeedback&)>\<close>. A callback
  is arbitrary client code: it receives the event, may read the monitor through the
  accessors, and acts on the client's own state \<open>'w\<close> (a log, a counter, ...). An empty
  \<^verbatim>\<open>std::function\<close> is \<open>None\<close>. Calls are sequential; the mutex member guards
  nothing that a sequential run can see and has no field here. Callbacks that call back
  into the mutating operations of the monitor are outside this model.
\<close>

type_synonym 'w FeedbackCallback = "Snapshot \<Rightarrow> PresentationFeedback \<Rightarrow> 'w \<Rightarrow> 'w"

text \<open>
  The class \<^verbatim>\<open>WaylandPresentationMonitor\<close>. A member \<^verbatim>\<open>x_\<close> of the class is the
  field \<open>m_x\<close> of the record.
\<close>

record 'w WaylandPresentationMonitor =
  m_wl_display :: uintptr_t
  m_wl_surface :: uintptr_t
  m_wp_presentation :: uintptr_t
  m_callback :: "'w FeedbackCallback option"
  m_presented_count :: u64
  m_discarded_count :: u64
  m_vsync_count :: u64
  m_zero_copy_count :: u64
  m_last_sequence :: u64
  m_last_timestamp_ns :: u64

text \<open>
  The constructor. Its initializer list names the three handles and the four counters;
  \<^verbatim>\<open>last_sequence_\<close> and \<^verbatim>\<open>last_timestamp_ns_\<close> are not in it and have no default
  member initializer, so they are default-initialized \<^verbatim>\<open>std::atomic<uint64_t>\<close>
  objects: before C++20 that leaves the value indeterminate, from C++20 on it is zero.
  The two values the storage happens to hold are the parameters \<open>u_seq\<close> and \<open>u_ts\<close>.
  \<^verbatim>\<open>callback_\<close> is a default-constructed, empty \<^verbatim>\<open>std::function\<close>.
\<close>

definition new_WaylandPresentationMonitor :: "u64 \<Rightarrow> u64 \<Rightarrow> 'w WaylandPresentationMonitor" where
  "new_WaylandPresentationMonitor u_seq u_ts =
     \<lparr> m_wl_display = 0,
       m_wl_surface = 0,
       m_wp_presentation = 0,
       m_callback = None,
       m_presented_count = 0,
       m_discarded_count = 0,
       m_vsync_count = 0,
       m_zero_copy_count = 0,
       m_last_sequence = u_seq,
       m_last_timestamp_ns = u_ts \<rparr>"

section \<open>Operations\<close>

text \<open>\<^verbatim>\<open>initialize\<close>: three stores, then the conjunction of the three stored pointers.\<close>

definition initialize ::
  "uintptr_t \<Rightarrow> uintptr_t \<Rightarrow> uintptr_t \<Rightarrow> 'w WaylandPresentationMonitor
     \<Rightarrow> bool \<times> 'w WaylandPresentationMonitor" where
  "initialize wl_display wl_surface wp_presentation m =
     (let m1 = m\<lparr>m_wl_display := wl_display\<rparr>;
          m2 = m1\<lparr>m_wl_surface := wl_surface\<rparr>;
          m3 = m2\<lparr>m_wp_presentation := wp_presentation\<rparr>
      in (m_wl_display m3 \<noteq> 0 \<and> m_wl_surface m3 \<noteq> 0 \<and> m_wp_presentation m3 \<noteq> 0, m3))"

definition set_callback ::
  "'w FeedbackCallback option \<Rightarrow> 'w WaylandPresentationMonitor \<Rightarrow> 'w WaylandPresentationMonitor" where
  "set_callback callback m = m\<lparr>m_callback := callback\<rparr>"

text \<open>\<^verbatim>\<open>request_feedback\<close> has an empty body.\<close>

definition request_feedback :: "'w WaylandPresentationMonitor \<Rightarrow> 'w WaylandPresentationMonitor" where
  "request_feedback m = m"

subsection \<open>Accessors\<close>

definition presented_count :: "'w WaylandPresentationMonitor \<Rightarrow> u64" where
  "presented_count m = m_presented_count m"

definition discarded_count :: "'w WaylandPresentationMonitor \<Rightarrow> u64" where
  "discarded_count m = m_discarded_count m"

definition vsync_count :: "'w WaylandPresentationMonitor \<Rightarrow> u64" where
  "vsync_count m = m_vsync_count m"

definition zero_copy_count :: "'w WaylandPresentationMonitor \<Rightarrow> u64" where
  "zero_copy_count m = m_zero_copy_count m"

definition last_sequence :: "'w WaylandPresentationMonitor \<Rightarrow> u64" where
  "last_sequence m = m_last_sequence m"

definition last_timestamp_ns :: "'w WaylandPresentationMonitor \<Rightarrow> u64" where
  "last_timestamp_ns m = m_last_timestamp_ns m"

definition snapshot :: "'w WaylandPresentationMonitor \<Rightarrow> Snapshot" where
  "snapshot m =
     \<lparr> seen_presented_count = presented_count m,
       seen_discarded_count = discarded_count m,
       seen_vsync_count = vsync_count m,
       seen_zero_copy_count = zero_copy_count m,
       seen_last_sequence = last_sequence m,
       seen_last_timestamp_ns = last_timestamp_ns m \<rparr>"

subsection \<open>Event ingestion\<close>

text \<open>
  The \<^verbatim>\<open>if (callback_) callback_(fb);\<close> that ends both ingestion functions: the callback
  runs on the monitor as it is at that point and on the client's state.
\<close>

definition invoke_callback ::
  "PresentationFeedback \<Rightarrow> 'w WaylandPresentationMonitor \<times> 'w \<Rightarrow> 'w WaylandPresentationMonitor \<times> 'w" where
  "invoke_callback fb st =
     (case m_callback (fst st) of
        None \<Rightarrow> st
      | Some cb \<Rightarrow> (fst st, cb (snapshot (fst st)) fb (snd st)))"

text \<open>
  \<^verbatim>\<open>simulate_presented\<close>, statement by statement. The counters are 64-bit and \<^verbatim>\<open>++\<close>
  wraps; a flag test \<^verbatim>\<open>flags & 0x1\<close> is true when the masked value is not zero.
\<close>

definition simulate_presented ::
  "u64 \<Rightarrow> u64 \<Rightarrow> u32 \<Rightarrow> 'w WaylandPresentationMonitor \<times> 'w \<Rightarrow> 'w WaylandPresentationMonitor \<times> 'w" where
  "simulate_presented t s f st =
     (let fb = \<lparr> timestamp_ns = t, sequence = s, refresh_ns = 16666666, flags = f,
                 presented = True \<rparr>;
          m = fst st;
          m1 = m\<lparr>m_presented_count := m_presented_count m + 1\<rparr>;
          m2 = m1\<lparr>m_last_timestamp_ns := t\<rparr>;
          m3 = m2\<lparr>m_last_sequence := s\<rparr>;
          m4 = (if f AND 0x1 \<noteq> 0 then m3\<lparr>m_vsync_count := m_vsync_count m3 + 1\<rparr> else m3);
          m5 = (if f AND 0x8 \<noteq> 0 then m4\<lparr>m_zero_copy_count := m_zero_copy_count m4 + 1\<rparr> else m4)
      in invoke_callback fb (m5, snd st))"

text \<open>
  \<^verbatim>\<open>simulate_discarded\<close>. The local \<^verbatim>\<open>PresentationFeedback fb;\<close> is declared without an
  initializer and only \<^verbatim>\<open>fb.presented\<close> is assigned before the callback receives it; the
  other four fields hold whatever the stack slot held. That content is the parameter
  \<open>uninit\<close>.
\<close>

definition simulate_discarded ::
  "PresentationFeedback \<Rightarrow> 'w WaylandPresentationMonitor \<times> 'w \<Rightarrow> 'w WaylandPresentationMonitor \<times> 'w" where
  "simulate_discarded uninit st =
     (let fb = uninit\<lparr>presented := False\<rparr>;
          m = fst st;
          m1 = m\<lparr>m_discarded_count := m_discarded_count m + 1\<rparr>
      in invoke_callback fb (m1, snd st))"

subsection \<open>The handle helpers\<close>

definition get_wl_display_ptr :: "uintptr_t" where
  "get_wl_display_ptr = 0"

definition get_wl_surface_ptr :: "uintptr_t \<Rightarrow> uintptr_t" where
  "get_wl_surface_ptr qwindow_ptr = 0"

section \<open>Sequences of calls\<close>

text \<open>
  The public operations of the class as a client can issue them, one constructor per
  member function. A \<open>SimulateDiscarded\<close> call carries the content of the
  uninitialized local of that call.
\<close>

datatype 'w call =
    Initialize uintptr_t uintptr_t uintptr_t
  | SetCallback "'w FeedbackCallback option"
  | RequestFeedback
  | SimulatePresented u64 u64 u32
  | SimulateDiscarded PresentationFeedback

fun step :: "'w call \<Rightarrow> 'w WaylandPresentationMonitor \<times> 'w \<Rightarrow> 'w WaylandPresentationMonitor \<times> 'w" where
  "step (Initialize d s p) st = (snd (initialize d s p (fst st)), snd st)"
| "step (SetCallback cb) st = (set_callback cb (fst st), snd st)"
| "step RequestFeedback st = (request_feedback (fst st), snd st)"
| "step (SimulatePresented t s f) st = simulate_presented t s f st"
| "step (SimulateDiscarded uninit) st = simulate_discarded uninit st"

text \<open>Calls issued one after the other, first call first.\<close>

definition run :: "'w call list \<Rightarrow> 'w WaylandPresentationMonitor \<times> 'w \<Rightarrow> 'w WaylandPresentationMonitor \<times> 'w" where
  "run cs st = fold step cs st"

text \<open>The predicates by which events are counted.\<close>

fun is_presented :: "'w call \<Rightarrow> bool" where
  "is_presented (SimulatePresented t s f) = True"
| "is_presented _ = False"

fun is_discarded :: "'w call \<Rightarrow> bool" where
  "is_discarded (SimulateDiscarded uninit) = True"
| "is_discarded _ = False"

fun is_vsync :: "'w call \<Rightarrow> bool" where
  "is_vsync (SimulatePresented t s f) = bit f 0"
| "is_vsync _ = False"

fun is_zero_copy :: "'w call \<Rightarrow> bool" where
  "is_zero_copy (SimulatePresented t s f) = bit f 3"
| "is_zero_copy _ = False"

definition count_calls :: "('w call \<Rightarrow> bool) \<Rightarrow> 'w call list \<Rightarrow> nat" where
  "count_calls P cs = length (filter P cs)"




text \<open>
  A client callback that appends each event it receives to a log, the client state being
  the log.
\<close>

definition log_event :: "PresentationFeedback list FeedbackCallback" where
  "log_event seen fb entries = entries @ [fb]"

section \<open>\<^verbatim>\<open>timer.cpp\<close>\<close>

text \<open>
  \<^verbatim>\<open>get_timer_diff_ms\<close> is \<^verbatim>\<open>(end - start) / 1000.0\<close>: a subtraction of two
  \<^verbatim>\<open>uint64_t\<close>, which wraps, the conversion of the difference to \<^verbatim>\<open>double\<close>, and a
  \<^verbatim>\<open>double\<close> division by a constant that is exact in binary. A floating-point operation
  returns the exact result rounded; \<open>rnd\<close> is that rounding, and a \<^verbatim>\<open>double\<close> is the
  real number it denotes.
\<close>

definition get_timer_diff_ms :: "(real \<Rightarrow> real) \<Rightarrow> u64 \<Rightarrow> u64 \<Rightarrow> real" where
  "get_timer_diff_ms rnd start finish = rnd (rnd (real (unat (finish - start))) / 1000)"

section \<open>Basic facts about the operations\<close>

text \<open>The two flag tests of \<^verbatim>\<open>simulate_presented\<close> read bit 0 and bit 3.\<close>

lemma flag_vsync_bit: "((f::u32) AND 0x1 \<noteq> 0) = bit f 0"
  by (simp add: and_one_eq bit_0 mod_2_eq_odd)

lemma flag_zero_copy_bit: "((f::u32) AND 0x8 \<noteq> 0) = bit f 3"
  using and_exp_eq_0_iff_not_bit [of f 3] by simp

lemma fst_invoke_callback: "fst (invoke_callback fb st) = fst st"
  by (simp add: invoke_callback_def split: option.split)

lemma fst_simulate_presented:
  "fst (simulate_presented t s f st) =
     (fst st)\<lparr> m_presented_count := m_presented_count (fst st) + 1,
               m_last_timestamp_ns := t,
               m_last_sequence := s,
               m_vsync_count := m_vsync_count (fst st) + of_bool (bit f 0),
               m_zero_copy_count := m_zero_copy_count (fst st) + of_bool (bit f 3) \<rparr>"
  by (simp add: simulate_presented_def Let_def fst_invoke_callback
      flag_vsync_bit flag_zero_copy_bit)

lemma fst_simulate_discarded:
  "fst (simulate_discarded uninit st) =
     (fst st)\<lparr> m_discarded_count := m_discarded_count (fst st) + 1 \<rparr>"
  by (simp add: simulate_discarded_def Let_def fst_invoke_callback)

lemma snd_initialize:
  "snd (initialize d s p m) = m\<lparr> m_wl_display := d, m_wl_surface := s, m_wp_presentation := p \<rparr>"
  by (simp add: initialize_def Let_def)

lemma fst_initialize: "fst (initialize d s p m) = (d \<noteq> 0 \<and> s \<noteq> 0 \<and> p \<noteq> 0)"
  by (simp add: initialize_def Let_def)

lemma run_Nil: "run [] st = st"
  by (simp add: run_def)

lemma run_Cons: "run (c # cs) st = run cs (step c st)"
  by (simp add: run_def)

lemma run_append: "run (cs @ cs') st = run cs' (run cs st)"
  by (simp add: run_def)


lemmas fst_ops =
  snd_initialize set_callback_def request_feedback_def
  fst_simulate_presented fst_simulate_discarded

lemma step_presented_count:
  "presented_count (fst (step c st)) = presented_count (fst st) + of_bool (is_presented c)"
  by (cases c) (simp_all add: fst_ops presented_count_def)

lemma step_discarded_count:
  "discarded_count (fst (step c st)) = discarded_count (fst st) + of_bool (is_discarded c)"
  by (cases c) (simp_all add: fst_ops discarded_count_def)

lemma step_vsync_count:
  "vsync_count (fst (step c st)) = vsync_count (fst st) + of_bool (is_vsync c)"
  by (cases c) (simp_all add: fst_ops vsync_count_def)

lemma step_zero_copy_count:
  "zero_copy_count (fst (step c st)) = zero_copy_count (fst st) + of_bool (is_zero_copy c)"
  by (cases c) (simp_all add: fst_ops zero_copy_count_def)

lemma count_calls_Nil: "count_calls P [] = 0"
  by (simp add: count_calls_def)

lemma count_calls_Cons: "count_calls P (c # cs) = of_bool (P c) + count_calls P cs"
  by (simp add: count_calls_def)

lemma count_calls_append: "count_calls P (cs @ cs') = count_calls P cs + count_calls P cs'"
  by (simp add: count_calls_def)

lemma run_presented_count:
  "presented_count (fst (run cs st)) = presented_count (fst st) + of_nat (count_calls is_presented cs)"
  by (induction cs arbitrary: st)
    (simp_all add: run_Nil run_Cons count_calls_Nil count_calls_Cons step_presented_count)

lemma run_discarded_count:
  "discarded_count (fst (run cs st)) = discarded_count (fst st) + of_nat (count_calls is_discarded cs)"
  by (induction cs arbitrary: st)
    (simp_all add: run_Nil run_Cons count_calls_Nil count_calls_Cons step_discarded_count)

lemma run_vsync_count:
  "vsync_count (fst (run cs st)) = vsync_count (fst st) + of_nat (count_calls is_vsync cs)"
  by (induction cs arbitrary: st)
    (simp_all add: run_Nil run_Cons count_calls_Nil count_calls_Cons step_vsync_count)

lemma run_zero_copy_count:
  "zero_copy_count (fst (run cs st)) = zero_copy_count (fst st) + of_nat (count_calls is_zero_copy cs)"
  by (induction cs arbitrary: st)
    (simp_all add: run_Nil run_Cons count_calls_Nil count_calls_Cons step_zero_copy_count)

lemmas accessor_defs =
  presented_count_def discarded_count_def vsync_count_def zero_copy_count_def
  last_sequence_def last_timestamp_ns_def

subsection \<open>Discarded calls touch one field\<close>

lemma drop_discarded_step:
  assumes "(fst st)\<lparr>m_discarded_count := x\<rparr> = (fst st')\<lparr>m_discarded_count := x\<rparr>"
    and "\<not> is_discarded c"
  shows "(fst (step c st))\<lparr>m_discarded_count := x\<rparr> = (fst (step c st'))\<lparr>m_discarded_count := x\<rparr>"
  using assms
  by (cases "fst st"; cases "fst st'"; cases c) (simp_all add: fst_ops)

lemma drop_discarded_run:
  "(fst st)\<lparr>m_discarded_count := x\<rparr> = (fst st')\<lparr>m_discarded_count := x\<rparr> \<Longrightarrow>
   (fst (run cs st))\<lparr>m_discarded_count := x\<rparr> =
   (fst (run (filter (\<lambda>c. \<not> is_discarded c) cs) st'))\<lparr>m_discarded_count := x\<rparr>"
proof (induction cs arbitrary: st st')
  case Nil
  then show ?case by (simp add: run_Nil)
next
  case (Cons c cs)
  show ?case
  proof (cases "is_discarded c")
    case True
    then obtain u where c: "c = SimulateDiscarded u" by (cases c) simp_all
    have "(fst (step c st))\<lparr>m_discarded_count := x\<rparr> = (fst st')\<lparr>m_discarded_count := x\<rparr>"
      using Cons.prems by (simp add: c fst_simulate_discarded)
    from Cons.IH [OF this] show ?thesis using True by (simp add: run_Cons)
  next
    case False
    from Cons.IH [OF drop_discarded_step [OF Cons.prems False]]
    show ?thesis using False by (simp add: run_Cons)
  qed
qed

lemma drop_discarded_fields:
  assumes "m\<lparr>m_discarded_count := 0\<rparr> = m'\<lparr>m_discarded_count := 0\<rparr>"
  shows "last_sequence m = last_sequence m'" "last_timestamp_ns m = last_timestamp_ns m'"
    "presented_count m = presented_count m'" "vsync_count m = vsync_count m'"
    "zero_copy_count m = zero_copy_count m'" "m_wl_display m = m_wl_display m'"
    "m_wl_surface m = m_wl_surface m'" "m_wp_presentation m = m_wp_presentation m'"
    "m_callback m = m_callback m'"
  using assms by (cases m; cases m'; simp add: accessor_defs)+

subsection \<open>Counting below the width of the counters\<close>

lemma unat_counter: "n < 2 ^ 64 \<Longrightarrow> unat (of_nat n :: u64) = n"
  by (simp add: unat_of_nat take_bit_nat_eq_self)

lemma counter_mono: "a \<le> b \<Longrightarrow> b < 2 ^ 64 \<Longrightarrow> (of_nat a :: u64) \<le> of_nat b"
  by (simp add: word_le_nat_alt unat_counter)

lemma count_calls_take_le: "count_calls P (take k cs) \<le> count_calls P cs"
proof -
  have "count_calls P cs = count_calls P (take k cs) + count_calls P (drop k cs)"
    using count_calls_append [of P "take k cs" "drop k cs"] by simp
  then show ?thesis by simp
qed

lemma count_calls_take_Suc: "count_calls P (take k cs) \<le> count_calls P (take (Suc k) cs)"
  using count_calls_take_le [of P k "take (Suc k) cs"] by (simp add: min_def)

lemma count_calls_implies:
  "(\<And>c. P c \<Longrightarrow> Q c) \<Longrightarrow> count_calls P cs \<le> count_calls Q cs"
  by (induction cs) (auto simp: count_calls_Nil count_calls_Cons)

lemma count_vsync_le: "count_calls is_vsync cs \<le> count_calls is_presented cs"
proof (rule count_calls_implies)
  fix c :: "'a call" assume "is_vsync c" then show "is_presented c" by (cases c) simp_all
qed

lemma count_zero_copy_le: "count_calls is_zero_copy cs \<le> count_calls is_presented cs"
proof (rule count_calls_implies)
  fix c :: "'a call" assume "is_zero_copy c" then show "is_presented c" by (cases c) simp_all
qed

lemma prefix_counter_mono:
  assumes "count_calls P cs < 2 ^ 64"
  shows "(of_nat (count_calls P (take k cs)) :: u64) \<le> of_nat (count_calls P (take (Suc k) cs))"
proof (rule counter_mono)
  show "count_calls P (take k cs) \<le> count_calls P (take (Suc k) cs)"
    by (rule count_calls_take_Suc)
  show "count_calls P (take (Suc k) cs) < 2 ^ 64"
    using count_calls_take_le [of P "Suc k" cs] assms by simp
qed

lemma count_calls_replicate: "count_calls P (replicate n c) = (if P c then n else 0)"
  by (induction n) (simp_all add: count_calls_def)

subsection \<open>Readiness is read on the stored handles\<close>




subsection \<open>Unsigned difference\<close>

lemma unat_u64_diff:
  "unat ((finish :: u64) - start) =
     (if start \<le> finish then unat finish - unat start else 2 ^ 64 - (unat start - unat finish))"
proof (cases "start \<le> finish")
  case True
  then show ?thesis by (simp add: unat_sub)
next
  case False
  then have lt: "unat finish < unat start" by (simp add: word_le_nat_alt)
  have "unat start < 2 ^ 64" using unsigned_less [of start] by simp
  with lt False show ?thesis
    by (simp add: unat_sub_if' word_le_nat_alt)
qed

lemma wrap_diff_nat:
  fixes a b N :: nat
  assumes "a < N" "b < N"
  shows "(if b \<le> a then a - b else N - (b - a)) = (a + N - b) mod N"
proof (cases "b \<le> a")
  case True
  then have "a + N - b = (a - b) + N" by simp
  then have "(a + N - b) mod N = (a - b) mod N" by simp
  also have "\<dots> = a - b" using assms(1) by simp
  finally show ?thesis using True by simp
next
  case False
  then have "a + N - b = N - (b - a)" by simp
  moreover have "N - (b - a) < N" using False assms by simp
  ultimately show ?thesis using False by simp
qed

section \<open>The counters\<close>

text \<open>
  C1. Calls are issued one after the other on a monitor whose four counters are zero (a
  freshly constructed one, with or without handles and callback set). As long as fewer
  than \<open>2\<^sup>6\<^sup>4\<close> presented and fewer than \<open>2\<^sup>6\<^sup>4\<close> discarded events are ingested, none of
  \<^verbatim>\<open>presented_count\<close>, \<^verbatim>\<open>discarded_count\<close>, \<^verbatim>\<open>vsync_count\<close>, \<^verbatim>\<open>zero_copy_count\<close>
  decreases at any call, and after the whole sequence \<^verbatim>\<open>presented_count\<close> is the number of
  presented events, \<^verbatim>\<open>discarded_count\<close> the number of discarded events, \<^verbatim>\<open>vsync_count\<close>
  the number of presented events with bit 0 of the flags set and \<^verbatim>\<open>zero_copy_count\<close> the
  number of presented events with bit 3 set. The state after the first \<open>k\<close> calls is
  \<open>run (take k cs)\<close>.
\<close>

theorem counters_count_events:
  assumes zero: "presented_count m = 0" "discarded_count m = 0"
      "vsync_count m = 0" "zero_copy_count m = 0"
    and bound: "count_calls is_presented cs < 2 ^ 64" "count_calls is_discarded cs < 2 ^ 64"
  shows "(\<forall>k<length cs.
            presented_count (fst (run (take k cs) (m, w))) \<le> presented_count (fst (run (take (Suc k) cs) (m, w)))
          \<and> discarded_count (fst (run (take k cs) (m, w))) \<le> discarded_count (fst (run (take (Suc k) cs) (m, w)))
          \<and> vsync_count (fst (run (take k cs) (m, w))) \<le> vsync_count (fst (run (take (Suc k) cs) (m, w)))
          \<and> zero_copy_count (fst (run (take k cs) (m, w))) \<le> zero_copy_count (fst (run (take (Suc k) cs) (m, w))))
       \<and> unat (presented_count (fst (run cs (m, w)))) = count_calls is_presented cs
       \<and> unat (discarded_count (fst (run cs (m, w)))) = count_calls is_discarded cs
       \<and> unat (vsync_count (fst (run cs (m, w)))) = count_calls is_vsync cs
       \<and> unat (zero_copy_count (fst (run cs (m, w)))) = count_calls is_zero_copy cs"
proof -
  have vs: "count_calls is_vsync cs < 2 ^ 64"
    using count_vsync_le [of cs] bound(1) by simp
  have zc: "count_calls is_zero_copy cs < 2 ^ 64"
    using count_zero_copy_le [of cs] bound(1) by simp
  have p: "presented_count (fst (run xs (m, w))) = of_nat (count_calls is_presented xs)" for xs
    by (simp add: run_presented_count zero)
  have d: "discarded_count (fst (run xs (m, w))) = of_nat (count_calls is_discarded xs)" for xs
    by (simp add: run_discarded_count zero)
  have v: "vsync_count (fst (run xs (m, w))) = of_nat (count_calls is_vsync xs)" for xs
    by (simp add: run_vsync_count zero)
  have z: "zero_copy_count (fst (run xs (m, w))) = of_nat (count_calls is_zero_copy xs)" for xs
    by (simp add: run_zero_copy_count zero)
  have mono: "presented_count (fst (run (take k cs) (m, w))) \<le> presented_count (fst (run (take (Suc k) cs) (m, w)))
          \<and> discarded_count (fst (run (take k cs) (m, w))) \<le> discarded_count (fst (run (take (Suc k) cs) (m, w)))
          \<and> vsync_count (fst (run (take k cs) (m, w))) \<le> vsync_count (fst (run (take (Suc k) cs) (m, w)))
          \<and> zero_copy_count (fst (run (take k cs) (m, w))) \<le> zero_copy_count (fst (run (take (Suc k) cs) (m, w)))" for k
    unfolding p d v z
    using prefix_counter_mono [OF bound(1)] prefix_counter_mono [OF bound(2)]
      prefix_counter_mono [OF vs] prefix_counter_mono [OF zc]
    by blast
  have final: "unat (presented_count (fst (run cs (m, w)))) = count_calls is_presented cs"
    "unat (discarded_count (fst (run cs (m, w)))) = count_calls is_discarded cs"
    "unat (vsync_count (fst (run cs (m, w)))) = count_calls is_vsync cs"
    "unat (zero_copy_count (fst (run cs (m, w)))) = count_calls is_zero_copy cs"
    unfolding p d v z
    using bound vs zc by (simp_all add: unat_counter)
  from mono final show ?thesis by blast
qed

text \<open>
  The theorem at three calls on a fresh monitor: its hypotheses hold there, the third call
  does not lower \<^verbatim>\<open>presented_count\<close>, and the counters end at 2, 1, 1 and 1.
\<close>

theorem counters_count_events_witness:
  "presented_count (new_WaylandPresentationMonitor 0 0 :: unit WaylandPresentationMonitor) = 0
   \<and> count_calls is_presented
        [SimulatePresented 100 1 1 :: unit call, SimulateDiscarded \<lparr> timestamp_ns = 0, sequence = 0, refresh_ns = 0, flags = 0, presented = False \<rparr>,
         SimulatePresented 200 2 8] < 2 ^ 64
   \<and> (2::nat) < length [SimulatePresented 100 1 1 :: unit call, SimulateDiscarded \<lparr> timestamp_ns = 0, sequence = 0, refresh_ns = 0, flags = 0, presented = False \<rparr>,
         SimulatePresented 200 2 8]
   \<and> presented_count (fst (run (take 2 [SimulatePresented 100 1 1, SimulateDiscarded \<lparr> timestamp_ns = 0, sequence = 0, refresh_ns = 0, flags = 0, presented = False \<rparr>,
         SimulatePresented 200 2 8]) (new_WaylandPresentationMonitor 0 0, ())))
      \<le> presented_count (fst (run (take (Suc 2) [SimulatePresented 100 1 1, SimulateDiscarded \<lparr> timestamp_ns = 0, sequence = 0, refresh_ns = 0, flags = 0, presented = False \<rparr>,
         SimulatePresented 200 2 8]) (new_WaylandPresentationMonitor 0 0, ())))
   \<and> unat (presented_count (fst (run [SimulatePresented 100 1 1, SimulateDiscarded \<lparr> timestamp_ns = 0, sequence = 0, refresh_ns = 0, flags = 0, presented = False \<rparr>,
         SimulatePresented 200 2 8] (new_WaylandPresentationMonitor 0 0, ())))) = 2
   \<and> unat (discarded_count (fst (run [SimulatePresented 100 1 1, SimulateDiscarded \<lparr> timestamp_ns = 0, sequence = 0, refresh_ns = 0, flags = 0, presented = False \<rparr>,
         SimulatePresented 200 2 8] (new_WaylandPresentationMonitor 0 0, ())))) = 1
   \<and> unat (vsync_count (fst (run [SimulatePresented 100 1 1, SimulateDiscarded \<lparr> timestamp_ns = 0, sequence = 0, refresh_ns = 0, flags = 0, presented = False \<rparr>,
         SimulatePresented 200 2 8] (new_WaylandPresentationMonitor 0 0, ())))) = 1
   \<and> unat (zero_copy_count (fst (run [SimulatePresented 100 1 1, SimulateDiscarded \<lparr> timestamp_ns = 0, sequence = 0, refresh_ns = 0, flags = 0, presented = False \<rparr>,
         SimulatePresented 200 2 8] (new_WaylandPresentationMonitor 0 0, ())))) = 1"
proof -
  let ?m = "new_WaylandPresentationMonitor 0 0 :: unit WaylandPresentationMonitor"
  let ?cs = "[SimulatePresented 100 1 1 :: unit call, SimulateDiscarded \<lparr> timestamp_ns = 0, sequence = 0, refresh_ns = 0, flags = 0, presented = False \<rparr>,
         SimulatePresented 200 2 8]"
  have z: "presented_count ?m = 0" "discarded_count ?m = 0" "vsync_count ?m = 0" "zero_copy_count ?m = 0"
    by (simp_all add: new_WaylandPresentationMonitor_def accessor_defs)
  have b: "count_calls is_presented ?cs < 2 ^ 64" "count_calls is_discarded ?cs < 2 ^ 64"
    by (simp_all add: count_calls_def)
  have k: "(2::nat) < length ?cs" by simp
  have c: "count_calls is_presented ?cs = 2" "count_calls is_discarded ?cs = 1"
    "count_calls is_vsync ?cs = 1" "count_calls is_zero_copy ?cs = 1"
    by (simp_all add: count_calls_def)
  note main = counters_count_events [OF z b, of "()"]
  have mono: "presented_count (fst (run (take 2 ?cs) (?m, ())))
      \<le> presented_count (fst (run (take (Suc 2) ?cs) (?m, ())))"
    using main k by blast
  have fin: "unat (presented_count (fst (run ?cs (?m, ())))) = 2"
    "unat (discarded_count (fst (run ?cs (?m, ())))) = 1"
    "unat (vsync_count (fst (run ?cs (?m, ())))) = 1"
    "unat (zero_copy_count (fst (run ?cs (?m, ())))) = 1"
    using main c by simp_all
  show ?thesis
    using z(1) b(1) k mono fin by blast
qed

text \<open>
  Without the bound the count is lost: the counters are \<^verbatim>\<open>uint64_t\<close>, and after
  \<open>2\<^sup>6\<^sup>4\<close> presented events on a fresh monitor \<^verbatim>\<open>presented_count\<close> is back at 0, below
  its value one call earlier and different from the number of presented events.
\<close>

theorem presented_count_wraps_counterexample:
  "unat (presented_count (fst (run (replicate (2 ^ 64) (SimulatePresented 0 0 0))
      (new_WaylandPresentationMonitor 0 0 :: unit WaylandPresentationMonitor, ()))))
   \<noteq> count_calls is_presented (replicate (2 ^ 64) (SimulatePresented 0 0 0 :: unit call))"
proof -
  have "presented_count (fst (run (replicate (2 ^ 64) (SimulatePresented 0 0 0))
      (new_WaylandPresentationMonitor 0 0 :: unit WaylandPresentationMonitor, ()))) = of_nat (2 ^ 64)"
    unfolding run_presented_count count_calls_replicate
    by (simp add: new_WaylandPresentationMonitor_def presented_count_def)
  then have "unat (presented_count (fst (run (replicate (2 ^ 64) (SimulatePresented 0 0 0))
      (new_WaylandPresentationMonitor 0 0 :: unit WaylandPresentationMonitor, ())))) = 0"
    by simp
  moreover have "count_calls is_presented (replicate (2 ^ 64) (SimulatePresented 0 0 0 :: unit call)) = 2 ^ 64"
    unfolding count_calls_replicate by simp
  ultimately show ?thesis by simp
qed

section \<open>Discarded events\<close>

text \<open>
  C3. From every monitor state, \<^verbatim>\<open>simulate_discarded\<close> adds one to \<^verbatim>\<open>discarded_count\<close>
  (in 64-bit arithmetic) and leaves \<^verbatim>\<open>last_sequence\<close>, \<^verbatim>\<open>last_timestamp_ns\<close>,
  \<^verbatim>\<open>presented_count\<close>, \<^verbatim>\<open>vsync_count\<close>, \<^verbatim>\<open>zero_copy_count\<close>, the three handles and the
  registered callback as they were. In a sequence of calls with any number of discarded
  ingestions between the others, \<^verbatim>\<open>discarded_count\<close> grows by that number and every other
  field ends as it does when the discarded calls are left out of the sequence.
\<close>

theorem simulate_discarded_frame:
  "discarded_count (fst (simulate_discarded uninit st)) = discarded_count (fst st) + 1
   \<and> last_sequence (fst (simulate_discarded uninit st)) = last_sequence (fst st)
   \<and> last_timestamp_ns (fst (simulate_discarded uninit st)) = last_timestamp_ns (fst st)
   \<and> presented_count (fst (simulate_discarded uninit st)) = presented_count (fst st)
   \<and> vsync_count (fst (simulate_discarded uninit st)) = vsync_count (fst st)
   \<and> zero_copy_count (fst (simulate_discarded uninit st)) = zero_copy_count (fst st)
   \<and> m_wl_display (fst (simulate_discarded uninit st)) = m_wl_display (fst st)
   \<and> m_wl_surface (fst (simulate_discarded uninit st)) = m_wl_surface (fst st)
   \<and> m_wp_presentation (fst (simulate_discarded uninit st)) = m_wp_presentation (fst st)
   \<and> m_callback (fst (simulate_discarded uninit st)) = m_callback (fst st)
   \<and> discarded_count (fst (run cs st)) = discarded_count (fst st) + of_nat (count_calls is_discarded cs)
   \<and> last_sequence (fst (run cs st)) = last_sequence (fst (run (filter (\<lambda>c. \<not> is_discarded c) cs) st))
   \<and> last_timestamp_ns (fst (run cs st)) = last_timestamp_ns (fst (run (filter (\<lambda>c. \<not> is_discarded c) cs) st))
   \<and> presented_count (fst (run cs st)) = presented_count (fst (run (filter (\<lambda>c. \<not> is_discarded c) cs) st))
   \<and> vsync_count (fst (run cs st)) = vsync_count (fst (run (filter (\<lambda>c. \<not> is_discarded c) cs) st))
   \<and> zero_copy_count (fst (run cs st)) = zero_copy_count (fst (run (filter (\<lambda>c. \<not> is_discarded c) cs) st))
   \<and> m_wl_display (fst (run cs st)) = m_wl_display (fst (run (filter (\<lambda>c. \<not> is_discarded c) cs) st))
   \<and> m_wl_surface (fst (run cs st)) = m_wl_surface (fst (run (filter (\<lambda>c. \<not> is_discarded c) cs) st))
   \<and> m_wp_presentation (fst (run cs st)) = m_wp_presentation (fst (run (filter (\<lambda>c. \<not> is_discarded c) cs) st))
   \<and> m_callback (fst (run cs st)) = m_callback (fst (run (filter (\<lambda>c. \<not> is_discarded c) cs) st))"
proof -
  have one: "fst (simulate_discarded uninit st) = (fst st)\<lparr>m_discarded_count := m_discarded_count (fst st) + 1\<rparr>"
    by (rule fst_simulate_discarded)
  have many: "(fst (run cs st))\<lparr>m_discarded_count := 0\<rparr> =
      (fst (run (filter (\<lambda>c. \<not> is_discarded c) cs) st))\<lparr>m_discarded_count := 0\<rparr>"
    by (rule drop_discarded_run) simp
  show ?thesis
    using drop_discarded_fields [OF many]
    by (simp add: one run_discarded_count [unfolded discarded_count_def] accessor_defs)
qed

section \<open>Initialization\<close>

text \<open>
  What \<^verbatim>\<open>initialize(d, s, p)\<close> does on any monitor: it stores the three handles whatever
  was stored before, so that a repeated call leaves what the last call alone would leave,
  and returns true exactly when all three are non-zero. It changes nothing else: the four
  counters, \<^verbatim>\<open>last_sequence\<close>, \<^verbatim>\<open>last_timestamp_ns\<close> and the callback keep their values,
  which for the counters of a freshly constructed monitor is 0. \<^verbatim>\<open>initialize(0, 0, 0)\<close>
  returns false and \<^verbatim>\<open>initialize(1, 1, 1)\<close> returns true.
\<close>

theorem initialize_stores_and_reports:
  "fst (initialize d s p m) = (d \<noteq> 0 \<and> s \<noteq> 0 \<and> p \<noteq> 0)
   \<and> m_wl_display (snd (initialize d s p m)) = d
   \<and> m_wl_surface (snd (initialize d s p m)) = s
   \<and> m_wp_presentation (snd (initialize d s p m)) = p
   \<and> snd (initialize d' s' p' (snd (initialize d s p m))) = snd (initialize d' s' p' m)
   \<and> presented_count (snd (initialize d s p m)) = presented_count m
   \<and> discarded_count (snd (initialize d s p m)) = discarded_count m
   \<and> vsync_count (snd (initialize d s p m)) = vsync_count m
   \<and> zero_copy_count (snd (initialize d s p m)) = zero_copy_count m
   \<and> last_sequence (snd (initialize d s p m)) = last_sequence m
   \<and> last_timestamp_ns (snd (initialize d s p m)) = last_timestamp_ns m
   \<and> m_callback (snd (initialize d s p m)) = m_callback m
   \<and> presented_count (snd (initialize d s p (new_WaylandPresentationMonitor u_seq u_ts))) = 0
   \<and> discarded_count (snd (initialize d s p (new_WaylandPresentationMonitor u_seq u_ts))) = 0
   \<and> vsync_count (snd (initialize d s p (new_WaylandPresentationMonitor u_seq u_ts))) = 0
   \<and> zero_copy_count (snd (initialize d s p (new_WaylandPresentationMonitor u_seq u_ts))) = 0
   \<and> fst (initialize 0 0 0 m) = False
   \<and> fst (initialize 1 1 1 m) = True"
  by (simp add: fst_initialize snd_initialize new_WaylandPresentationMonitor_def
      presented_count_def discarded_count_def vsync_count_def zero_copy_count_def
      last_sequence_def last_timestamp_ns_def)

text \<open>
  C4. After \<^verbatim>\<open>initialize\<close> on a freshly constructed monitor the counters and the two
  last-presented fields should all be 0, their values before the call. \<^verbatim>\<open>initialize\<close> keeps
  every one of them, but the constructor has left \<^verbatim>\<open>last_sequence_\<close> and
  \<^verbatim>\<open>last_timestamp_ns_\<close> as the storage held them: with 5 and 9 there,
  \<^verbatim>\<open>initialize(0, 0, 0)\<close> returns false, the counters are 0, and \<^verbatim>\<open>last_sequence()\<close> and
  \<^verbatim>\<open>last_timestamp_ns()\<close> are 5 and 9.
\<close>

theorem initialize_on_fresh_monitor_last_fields:
  "fst (initialize 0 0 0 (new_WaylandPresentationMonitor 5 9 :: unit WaylandPresentationMonitor)) = False
   \<and> presented_count (snd (initialize 0 0 0 (new_WaylandPresentationMonitor 5 9 :: unit WaylandPresentationMonitor))) = 0
   \<and> discarded_count (snd (initialize 0 0 0 (new_WaylandPresentationMonitor 5 9 :: unit WaylandPresentationMonitor))) = 0
   \<and> vsync_count (snd (initialize 0 0 0 (new_WaylandPresentationMonitor 5 9 :: unit WaylandPresentationMonitor))) = 0
   \<and> zero_copy_count (snd (initialize 0 0 0 (new_WaylandPresentationMonitor 5 9 :: unit WaylandPresentationMonitor))) = 0
   \<and> last_sequence (snd (initialize 0 0 0 (new_WaylandPresentationMonitor 5 9 :: unit WaylandPresentationMonitor))) = 5
   \<and> last_timestamp_ns (snd (initialize 0 0 0 (new_WaylandPresentationMonitor 5 9 :: unit WaylandPresentationMonitor))) = 9"
  by (simp add: fst_initialize snd_initialize new_WaylandPresentationMonitor_def accessor_defs)

section \<open>Callback delivery\<close>

text \<open>
  C2. On a freshly constructed monitor with the logging callback registered, the calls
  \<^verbatim>\<open>simulate_presented(100, 1, 1)\<close>, \<^verbatim>\<open>simulate_discarded()\<close>,
  \<^verbatim>\<open>simulate_presented(200, 2, 8)\<close> leave a log of exactly three entries in the order of the
  calls, the second with \<^verbatim>\<open>presented\<close> false, and a monitor with \<^verbatim>\<open>presented_count\<close> 2,
  \<^verbatim>\<open>discarded_count\<close> 1, \<^verbatim>\<open>vsync_count\<close> 1, \<^verbatim>\<open>zero_copy_count\<close> 1, \<^verbatim>\<open>last_sequence\<close> 2
  and \<^verbatim>\<open>last_timestamp_ns\<close> 200. This holds whatever the constructor left in the two
  last-presented fields and whatever the uninitialized event of the discarded call held.
\<close>

theorem callback_delivery_order:
  "(let r = run [SimulatePresented 100 1 1, SimulateDiscarded uninit, SimulatePresented 200 2 8]
              (set_callback (Some log_event) (new_WaylandPresentationMonitor u_seq u_ts), [])
    in snd r =
         [\<lparr> timestamp_ns = 100, sequence = 1, refresh_ns = 16666666, flags = 1, presented = True \<rparr>,
          uninit\<lparr> presented := False \<rparr>,
          \<lparr> timestamp_ns = 200, sequence = 2, refresh_ns = 16666666, flags = 8, presented = True \<rparr>]
       \<and> length (snd r) = 3
       \<and> presented (snd r ! 1) = False
       \<and> presented_count (fst r) = 2
       \<and> discarded_count (fst r) = 1
       \<and> vsync_count (fst r) = 1
       \<and> zero_copy_count (fst r) = 1
       \<and> last_sequence (fst r) = 2
       \<and> last_timestamp_ns (fst r) = 200)"
  by (simp add: run_def simulate_presented_def simulate_discarded_def invoke_callback_def
      set_callback_def new_WaylandPresentationMonitor_def log_event_def
      accessor_defs Let_def)

text \<open>
  C5. With a callback registered, \<^verbatim>\<open>simulate_presented(timestamp_ns, sequence, flags)\<close>
  runs the callback once, inside the call: the client's state after the call is the
  callback applied a single time to the client's state before it. The callback runs after
  the updates, so what it reads through the accessors is the state the call leaves
  (\<^verbatim>\<open>presented_count\<close> already incremented, the last-presented fields already set, the flag
  counters already incremented where bit 0 or bit 3 is set), and the event it receives has
  \<^verbatim>\<open>presented\<close> true, the three arguments in their fields and \<^verbatim>\<open>refresh_ns\<close> 16666666.
\<close>

theorem simulate_presented_callback:
  assumes "m_callback m = Some cb"
  shows "snd (simulate_presented t s f (m, w)) =
           cb (snapshot (fst (simulate_presented t s f (m, w))))
              \<lparr> timestamp_ns = t, sequence = s, refresh_ns = 16666666, flags = f, presented = True \<rparr> w
       \<and> snapshot (fst (simulate_presented t s f (m, w))) =
           \<lparr> seen_presented_count = presented_count m + 1,
             seen_discarded_count = discarded_count m,
             seen_vsync_count = vsync_count m + of_bool (bit f 0),
             seen_zero_copy_count = zero_copy_count m + of_bool (bit f 3),
             seen_last_sequence = s,
             seen_last_timestamp_ns = t \<rparr>"
proof -
  have post: "snapshot (fst (simulate_presented t s f (m, w))) =
           \<lparr> seen_presented_count = presented_count m + 1,
             seen_discarded_count = discarded_count m,
             seen_vsync_count = vsync_count m + of_bool (bit f 0),
             seen_zero_copy_count = zero_copy_count m + of_bool (bit f 3),
             seen_last_sequence = s,
             seen_last_timestamp_ns = t \<rparr>"
    by (simp add: fst_simulate_presented snapshot_def accessor_defs)
  have "snd (simulate_presented t s f (m, w)) =
           cb (snapshot (fst (simulate_presented t s f (m, w))))
              \<lparr> timestamp_ns = t, sequence = s, refresh_ns = 16666666, flags = f, presented = True \<rparr> w"
    using assms
    by (simp add: simulate_presented_def invoke_callback_def Let_def)
  with post show ?thesis by simp
qed

text \<open>
  The theorem at the logging callback, with flags 9: one entry is logged and the counters
  it could read are 1, 0, 1 and 1.
\<close>

theorem simulate_presented_callback_witness:
  "m_callback (set_callback (Some log_event) (new_WaylandPresentationMonitor 0 0)) = Some log_event
   \<and> snd (simulate_presented 100 1 9
            (set_callback (Some log_event) (new_WaylandPresentationMonitor 0 0), [])) =
       [\<lparr> timestamp_ns = 100, sequence = 1, refresh_ns = 16666666, flags = 9, presented = True \<rparr>]
   \<and> snapshot (fst (simulate_presented 100 1 9
            (set_callback (Some log_event) (new_WaylandPresentationMonitor 0 0), []))) =
       \<lparr> seen_presented_count = 1, seen_discarded_count = 0, seen_vsync_count = 1,
         seen_zero_copy_count = 1, seen_last_sequence = 1, seen_last_timestamp_ns = 100 \<rparr>"
proof -
  have h: "m_callback (set_callback (Some log_event) (new_WaylandPresentationMonitor 0 0)) = Some log_event"
    by (simp add: set_callback_def)
  show ?thesis
    using h simulate_presented_callback [OF h, of 100 1 9 "[]"]
    by (simp add: log_event_def set_callback_def new_WaylandPresentationMonitor_def accessor_defs)
qed

text \<open>
  C6. The event that \<^verbatim>\<open>simulate_discarded\<close> hands to the callback has \<^verbatim>\<open>presented\<close> false,
  but its other four fields are never written: they are not zero in general. Here the
  stack slot held 7 in each of them and the callback logs an event with 7 in each.
\<close>

theorem simulate_discarded_passes_uninitialized_fields:
  "snd (simulate_discarded
          \<lparr> timestamp_ns = 7, sequence = 7, refresh_ns = 7, flags = 7, presented = True \<rparr>
          (set_callback (Some log_event) (new_WaylandPresentationMonitor 0 0), [])) =
     [\<lparr> timestamp_ns = 7, sequence = 7, refresh_ns = 7, flags = 7, presented = False \<rparr>]"
  by (simp add: simulate_discarded_def invoke_callback_def set_callback_def log_event_def
      new_WaylandPresentationMonitor_def Let_def)

section \<open>Construction\<close>

text \<open>
  C7. A freshly constructed monitor has its four counters at 0 and its three handles
  null, but \<^verbatim>\<open>last_sequence()\<close> and \<^verbatim>\<open>last_timestamp_ns()\<close> return what the storage held,
  since the constructor does not initialize these two members: here 5 and 9, not 0.
\<close>

theorem fresh_monitor_last_fields_not_zeroed:
  "presented_count (new_WaylandPresentationMonitor 5 9 :: 'w WaylandPresentationMonitor) = 0
   \<and> discarded_count (new_WaylandPresentationMonitor 5 9 :: 'w WaylandPresentationMonitor) = 0
   \<and> vsync_count (new_WaylandPresentationMonitor 5 9 :: 'w WaylandPresentationMonitor) = 0
   \<and> zero_copy_count (new_WaylandPresentationMonitor 5 9 :: 'w WaylandPresentationMonitor) = 0
   \<and> m_wl_display (new_WaylandPresentationMonitor 5 9 :: 'w WaylandPresentationMonitor) = 0
   \<and> m_wl_surface (new_WaylandPresentationMonitor 5 9 :: 'w WaylandPresentationMonitor) = 0
   \<and> m_wp_presentation (new_WaylandPresentationMonitor 5 9 :: 'w WaylandPresentationMonitor) = 0
   \<and> last_sequence (new_WaylandPresentationMonitor 5 9 :: 'w WaylandPresentationMonitor) = 5
   \<and> last_timestamp_ns (new_WaylandPresentationMonitor 5 9 :: 'w WaylandPresentationMonitor) = 9"
  by (simp add: new_WaylandPresentationMonitor_def presented_count_def discarded_count_def
      vsync_count_def zero_copy_count_def last_sequence_def last_timestamp_ns_def)

section \<open>Readiness\<close>




section \<open>The timer difference\<close>

text \<open>
  C9. \<^verbatim>\<open>get_timer_diff_ms(start, end)\<close> is the unsigned 64-bit difference \<^verbatim>\<open>end - start\<close>
  divided by 1000.0. The difference is \<^verbatim>\<open>end - start\<close> when \<^verbatim>\<open>start <= end\<close>; otherwise it
  wraps to \<open>2\<^sup>6\<^sup>4 - (start - end)\<close>, which is at least 1, so that in both cases it is
  \<open>(end + 2\<^sup>6\<^sup>4 - start) mod 2\<^sup>6\<^sup>4\<close>. The result is never negative, for any rounding that is
  monotone and keeps 0; when \<^verbatim>\<open>end < start\<close> it is positive, for any monotone rounding that
  keeps 1 and does not round 0.001 down to 0; and with exact arithmetic it is the
  difference over 1000.
\<close>

theorem get_timer_diff_ms_spec:
  "get_timer_diff_ms rnd start finish =
     rnd (rnd (real (if start \<le> finish then unat finish - unat start
                     else 2 ^ 64 - (unat start - unat finish))) / 1000)
   \<and> (if start \<le> finish then unat finish - unat start
       else 2 ^ 64 - (unat start - unat finish)) = (unat finish + 2 ^ 64 - unat start) mod 2 ^ 64
   \<and> (finish < start \<longrightarrow> 1 \<le> unat (finish - start)
         \<and> unat (finish - start) = 2 ^ 64 - (unat start - unat finish))
   \<and> (mono rnd \<and> rnd 0 = 0 \<longrightarrow> 0 \<le> get_timer_diff_ms rnd start finish)
   \<and> (mono rnd \<and> rnd 1 = 1 \<and> 0 < rnd (1 / 1000) \<and> finish < start
         \<longrightarrow> 0 < get_timer_diff_ms rnd start finish)
   \<and> get_timer_diff_ms (\<lambda>x. x) start finish =
       real ((unat finish + 2 ^ 64 - unat start) mod 2 ^ 64) / 1000"
proof -
  have m: "(if start \<le> finish then unat finish - unat start
       else 2 ^ 64 - (unat start - unat finish)) = (unat finish + 2 ^ 64 - unat start) mod 2 ^ 64"
  proof -
    have s: "unat start < 2 ^ 64" using unsigned_less [of start] by simp
    have f: "unat finish < 2 ^ 64" using unsigned_less [of finish] by simp
    from wrap_diff_nat [OF f s] show ?thesis
      unfolding word_le_nat_alt .
  qed
  have e: "get_timer_diff_ms r start finish =
     r (r (real (if start \<le> finish then unat finish - unat start
                     else 2 ^ 64 - (unat start - unat finish))) / 1000)" for r
    unfolding get_timer_diff_ms_def unat_u64_diff ..
  have w: "1 \<le> unat (finish - start) \<and> unat (finish - start) = 2 ^ 64 - (unat start - unat finish)"
    if "finish < start"
  proof -
    from that have "finish - start \<noteq> 0" by simp
    then have "unat (finish - start) \<noteq> 0" by (simp add: unat_eq_0)
    then have "1 \<le> unat (finish - start)" by simp
    moreover from that have "\<not> start \<le> finish" by simp
    then have "unat (finish - start) = 2 ^ 64 - (unat start - unat finish)"
      by (simp add: unat_u64_diff)
    ultimately show ?thesis by simp
  qed
  have n: "0 \<le> get_timer_diff_ms rnd start finish" if "mono rnd" "rnd 0 = 0"
  proof -
    have nn: "0 \<le> rnd x" if "0 \<le> x" for x
      using monoD [OF \<open>mono rnd\<close> that] \<open>rnd 0 = 0\<close> by simp
    have "0 \<le> real (unat (finish - start))" by (rule of_nat_0_le_iff)
    then have "0 \<le> rnd (real (unat (finish - start)))" by (rule nn)
    then have "0 \<le> rnd (real (unat (finish - start))) / 1000" by (rule divide_nonneg_nonneg) simp
    then have "0 \<le> rnd (rnd (real (unat (finish - start))) / 1000)" by (rule nn)
    then show ?thesis unfolding get_timer_diff_ms_def .
  qed
  have p: "0 < get_timer_diff_ms rnd start finish"
    if "mono rnd" "rnd 1 = 1" "0 < rnd (1 / 1000)" "finish < start"
  proof -
    from w [OF \<open>finish < start\<close>] have "1 \<le> unat (finish - start)" by simp
    then have "real 1 \<le> real (unat (finish - start))" by (rule of_nat_mono)
    then have "(1::real) \<le> real (unat (finish - start))" unfolding of_nat_1 .
    then have "rnd 1 \<le> rnd (real (unat (finish - start)))"
      by (rule monoD [OF \<open>mono rnd\<close>])
    then have "1 \<le> rnd (real (unat (finish - start)))"
      unfolding \<open>rnd 1 = 1\<close> .
    then have "1 / 1000 \<le> rnd (real (unat (finish - start))) / 1000"
      by (simp add: divide_right_mono)
    then have "rnd (1 / 1000) \<le> rnd (rnd (real (unat (finish - start))) / 1000)"
      by (rule monoD [OF \<open>mono rnd\<close>])
    with \<open>0 < rnd (1 / 1000)\<close> have "0 < rnd (rnd (real (unat (finish - start))) / 1000)"
      by (rule less_le_trans)
    then show ?thesis unfolding get_timer_diff_ms_def .
  qed
  have x: "get_timer_diff_ms (\<lambda>x. x) start finish =
       real ((unat finish + 2 ^ 64 - unat start) mod 2 ^ 64) / 1000"
    unfolding e m ..
  from e [of rnd] m w n p x show ?thesis by blast
qed

text \<open>
  The theorem with exact arithmetic, at inputs where no operation of the code rounds: from
  \<open>2\<^sup>6\<^sup>4 - 2000\<close> on to 0 the difference wraps to 2000 ticks and the result is 2 ms, as it is
  from 1000 to 3000.
\<close>

theorem get_timer_diff_ms_spec_witness:
  "mono (\<lambda>x::real. x) \<and> (\<lambda>x::real. x) 0 = 0 \<and> (\<lambda>x::real. x) 1 = 1
   \<and> 0 < (\<lambda>x::real. x) (1 / 1000)
   \<and> (0 :: u64) < 18446744073709549616
   \<and> unat ((0 :: u64) - 18446744073709549616) = 2000
   \<and> 0 < get_timer_diff_ms (\<lambda>x. x) 18446744073709549616 0
   \<and> get_timer_diff_ms (\<lambda>x. x) 18446744073709549616 0 = 2
   \<and> get_timer_diff_ms (\<lambda>x. x) 1000 3000 = 2"
proof -
  have h: "mono (\<lambda>x::real. x)" "(\<lambda>x::real. x) 0 = 0" "(\<lambda>x::real. x) 1 = 1"
    "0 < (\<lambda>x::real. x) (1 / 1000)"
    by (simp_all add: mono_def)
  have lt: "(0 :: u64) < 18446744073709549616" by simp
  note main = get_timer_diff_ms_spec [of "\<lambda>x. x" 18446744073709549616 0]
  have "unat ((0 :: u64) - 18446744073709549616) =
      2 ^ 64 - (unat (18446744073709549616 :: u64) - unat (0 :: u64))"
    using main lt by blast
  then have d: "unat ((0 :: u64) - 18446744073709549616) = 2000" by simp
  have a: "0 < get_timer_diff_ms (\<lambda>x. x) 18446744073709549616 0"
    using main h lt by blast
  have "get_timer_diff_ms (\<lambda>x. x) 18446744073709549616 0 =
      real ((unat (0::u64) + 2 ^ 64 - unat (18446744073709549616::u64)) mod 2 ^ 64) / 1000"
    using main by blast
  then have b: "get_timer_diff_ms (\<lambda>x. x) 18446744073709549616 0 = 2"
    by simp
  have "get_timer_diff_ms (\<lambda>x. x) 1000 3000 = real ((unat (3000::u64) + 2 ^ 64 - unat (1000::u64)) mod 2 ^ 64) / 1000"
    using get_timer_diff_ms_spec [of "\<lambda>x. x" 1000 3000] by blast
  then have c: "get_timer_diff_ms (\<lambda>x. x) 1000 3000 = 2"
    by simp
  from h lt d a b c show ?thesis by blast
qed

text \<open>
  The wrapped result need not be large. From \<open>2\<^sup>6\<^sup>4 - 1\<close> on to 0 the difference is one
  tick and the result a thousandth of a millisecond; from \<open>2\<^sup>6\<^sup>4 - 125\<close> on to 0, where no
  operation of the code rounds, the result is an eighth of a millisecond, less than the
  result for the unwrapped interval from 0 to 1000.
\<close>

theorem wrapped_difference_small_counterexample:
  "(0 :: u64) < 18446744073709551615
   \<and> get_timer_diff_ms (\<lambda>x. x) 18446744073709551615 0 = 1 / 1000
   \<and> (0 :: u64) < 18446744073709551491
   \<and> get_timer_diff_ms (\<lambda>x. x) 18446744073709551491 0 = 1 / 8
   \<and> get_timer_diff_ms (\<lambda>x. x) 18446744073709551491 0 < get_timer_diff_ms (\<lambda>x. x) 0 1000"
proof -
  have a: "unat ((0::u64) - 18446744073709551615) = 1" by simp
  have b: "unat ((0::u64) - 18446744073709551491) = 125" by simp
  have c: "unat ((1000::u64) - 0) = 1000" by simp
  show ?thesis
    unfolding get_timer_diff_ms_def a b c by simp
qed

section \<open>The handle helpers return null\<close>

text \<open>
  C10. \<^verbatim>\<open>get_wl_display_ptr()\<close> returns 0 and \<^verbatim>\<open>get_wl_surface_ptr(qwindow_ptr)\<close> returns 0
  for every argument; an \<^verbatim>\<open>initialize\<close> call that takes its display or its surface handle
  (or both) from them returns false, whatever the remaining arguments and the monitor.
\<close>

theorem handle_stubs_are_null:
  "get_wl_display_ptr = 0
   \<and> get_wl_surface_ptr qwindow_ptr = 0
   \<and> fst (initialize get_wl_display_ptr (get_wl_surface_ptr qwindow_ptr) p m) = False
   \<and> fst (initialize get_wl_display_ptr s p m) = False
   \<and> fst (initialize d (get_wl_surface_ptr qwindow_ptr) p m) = False"
  by (simp add: get_wl_display_ptr_def get_wl_surface_ptr_def fst_initialize)

end
